theory Spec2Isabelle
  imports Complex_Main
begin

section \<open>The monitoring script examples/scripts/monitor.py\<close>

subsection \<open>JSON payloads as the script reads them\<close>

text \<open>
  The three fetches return parsed JSON. The script's signatures type the containers
  (\<^verbatim>\<open>Optional[Dict]\<close>, \<^verbatim>\<open>List[Dict]\<close>) and leave the values of a dictionary untyped,
  so a dictionary is an association list from keys to arbitrary JSON values, and the model
  follows Python on every value a key can hold. A number is represented by its exact value:
  Python compares an int and a float by value, and every threshold a payload value is
  compared with is an integer. The non-finite floats and the integers beyond the range of a float
  (which \<^verbatim>\<open>.1f\<close> cannot format) are left out.
\<close>

datatype json =
    JNull
  | JBool bool
  | JNum real
  | JStr string
  | JArr "json list"
  | JObj "(string \<times> json) list"

type_synonym dict = "(string \<times> json) list"

text \<open>The exceptions the modelled functions can raise.\<close>

datatype error =
    AttributeError  \<comment> \<open>\<^verbatim>\<open>.get\<close> on a value that is not a dictionary\<close>
  | TypeError       \<comment> \<open>an ordering comparison between a non-number and a float\<close>
  | ValueError      \<comment> \<open>\<^verbatim>\<open>time.sleep\<close> of a negative length, \<^verbatim>\<open>.1f\<close> applied to a string\<close>

text \<open>Python's truth value of a parsed JSON value (\<^verbatim>\<open>if x:\<close>).\<close>

fun truthy :: "json \<Rightarrow> bool" where
  "truthy JNull = False"
| "truthy (JBool b) = b"
| "truthy (JNum x) = (x \<noteq> 0)"
| "truthy (JStr s) = (s \<noteq> [])"
| "truthy (JArr xs) = (xs \<noteq> [])"
| "truthy (JObj kvs) = (kvs \<noteq> [])"

text \<open>\<^verbatim>\<open>d.get(k, default)\<close> on a dictionary; \<^verbatim>\<open>d.get(k)\<close> is \<open>dict_get d k JNull\<close>.\<close>

definition dict_get :: "dict \<Rightarrow> string \<Rightarrow> json \<Rightarrow> json" where
  "dict_get d k dflt = (case map_of d k of None \<Rightarrow> dflt | Some v \<Rightarrow> v)"

text \<open>
  The value \<^verbatim>\<open>x\<close> of an ordering comparison \<^verbatim>\<open>x < 30.0\<close>: a number (a bool counts as 0 or 1),
  anything else raises TypeError.
\<close>

fun number :: "json \<Rightarrow> error + real" where
  "number (JNum x) = Inr x"
| "number (JBool b) = Inr (if b then 1 else 0)"
| "number _ = Inl TypeError"

subsection \<open>Alerts\<close>

text \<open>
  A point of the naive local clock \<^verbatim>\<open>datetime.now()\<close>, in microseconds (the resolution of
  \<^verbatim>\<open>datetime\<close>). \<^verbatim>\<open>isoformat\<close> followed by \<^verbatim>\<open>fromisoformat\<close> gives the same point back, so
  a stored timestamp is kept as the point itself.
\<close>

type_synonym datetime = int

text \<open>
  The message of an alert is an f-string of the script; it is kept as the template together
  with the values put into it (the rendering of \<^verbatim>\<open>{x:.1f}\<close> to characters is not modelled).
\<close>

datatype message =
    API_not_responding                 \<comment> \<open>\<^verbatim>\<open>'API not responding'\<close>\<close>
  | Mining_not_active json             \<comment> \<open>\<^verbatim>\<open>f"Mining not active: {data.get('mining_state')}"\<close>\<close>
  | Low_total_hashrate real            \<comment> \<open>\<^verbatim>\<open>f"Low total hashrate: {total_hashrate:.1f} GH/s"\<close>\<close>
  | High_hardware_errors json          \<comment> \<open>\<^verbatim>\<open>f"High hardware errors: {hardware_errors}"\<close>\<close>
  | Device_high_temperature json real  \<comment> \<open>\<^verbatim>\<open>f"Device {device_id} high temperature: {temp:.1f}..C"\<close>\<close>
  | Device_low_hashrate json real      \<comment> \<open>\<^verbatim>\<open>f"Device {device_id} low hashrate: {hashrate:.1f} GH/s"\<close>\<close>
  | Device_not_mining json json        \<comment> \<open>\<^verbatim>\<open>f"Device {device_id} not mining: {device.get('status')}"\<close>\<close>
  | No_pools_connected                 \<comment> \<open>\<^verbatim>\<open>"No pools connected"\<close>\<close>

record alert =
  type :: string
  message :: message
  timestamp :: datetime

text \<open>
  \<^verbatim>\<open>alerts.append({'type': .., 'message': .., 'timestamp': datetime.now().isoformat()})\<close>.
  Every append reads the clock once and nothing else in \<^verbatim>\<open>check_alerts\<close> does, so the
  alert appended to a list of \<open>k\<close> alerts carries reading number \<open>k\<close> of the clock, where
  \<open>now k\<close> is the \<open>k\<close>-th value \<^verbatim>\<open>datetime.now()\<close> returns during the call.
\<close>

definition append_alert :: "(nat \<Rightarrow> datetime) \<Rightarrow> string \<Rightarrow> message \<Rightarrow> alert list \<Rightarrow> alert list" where
  "append_alert now ty msg alerts =
     alerts @ [\<lparr>type = ty, message = msg, timestamp = now (length alerts)\<rparr>]"

text \<open>\<^verbatim>\<open>status and status.get('success')\<close>, as a truth value (an empty dictionary is false).\<close>

definition api_ok :: "dict option \<Rightarrow> bool" where
  "api_ok status =
     (case status of
        None \<Rightarrow> False
      | Some st \<Rightarrow> st \<noteq> [] \<and> truthy (dict_get st ''success'' JNull))"

text \<open>
  The checks on \<^verbatim>\<open>data = status.get('data', {})\<close> (mining state, total hashrate, hardware
  errors). The first \<^verbatim>\<open>data.get\<close> raises AttributeError when \<^verbatim>\<open>data\<close> is not a dictionary.
\<close>

definition check_data_alerts :: "(nat \<Rightarrow> datetime) \<Rightarrow> json \<Rightarrow> alert list \<Rightarrow> error + alert list" where
  "check_data_alerts now data alerts0 =
     (case data of
        JObj d \<Rightarrow>
          (let mining_state = dict_get d ''mining_state'' JNull;
               alerts1 = (if mining_state \<noteq> JStr ''Running''
                          then append_alert now ''critical'' (Mining_not_active mining_state) alerts0
                          else alerts0);
               total_hashrate = dict_get d ''total_hashrate'' (JNum 0)
           in case number total_hashrate of
                Inl e \<Rightarrow> Inl e
              | Inr th \<Rightarrow>
                  (let alerts2 = (if th < 30
                                  then append_alert now ''warning'' (Low_total_hashrate th) alerts1
                                  else alerts1);
                       hardware_errors = dict_get d ''hardware_errors'' (JNum 0)
                   in case number hardware_errors of
                        Inl e \<Rightarrow> Inl e
                      | Inr he \<Rightarrow>
                          Inr (if he > 10
                               then append_alert now ''warning'' (High_hardware_errors hardware_errors) alerts2
                               else alerts2)))
      | _ \<Rightarrow> Inl AttributeError)"

text \<open>The body of \<^verbatim>\<open>for device in devices\<close>: temperature, hashrate and status checks.\<close>

definition check_device_alerts :: "(nat \<Rightarrow> datetime) \<Rightarrow> dict \<Rightarrow> alert list \<Rightarrow> error + alert list" where
  "check_device_alerts now device alerts0 =
     (let device_id = dict_get device ''device_id'' JNull;
          temp = dict_get device ''temperature'' JNull
      in case (if truthy temp
               then (case number temp of
                       Inl e \<Rightarrow> Inl e
                     | Inr t \<Rightarrow>
                         Inr (if t > 85
                              then append_alert now ''critical'' (Device_high_temperature device_id t) alerts0
                              else alerts0))
               else Inr alerts0) of
           Inl e \<Rightarrow> Inl e
         | Inr alerts1 \<Rightarrow>
             (case number (dict_get device ''hashrate'' (JNum 0)) of
                Inl e \<Rightarrow> Inl e
              | Inr hashrate \<Rightarrow>
                  (let alerts2 = (if hashrate < 15
                                  then append_alert now ''warning'' (Device_low_hashrate device_id hashrate) alerts1
                                  else alerts1);
                       status = dict_get device ''status'' JNull
                   in Inr (if status \<noteq> JStr ''Mining''
                           then append_alert now ''critical'' (Device_not_mining device_id status) alerts2
                           else alerts2))))"

fun check_devices_alerts :: "(nat \<Rightarrow> datetime) \<Rightarrow> dict list \<Rightarrow> alert list \<Rightarrow> error + alert list" where
  "check_devices_alerts now [] alerts = Inr alerts"
| "check_devices_alerts now (device # devices) alerts =
     (case check_device_alerts now device alerts of
        Inl e \<Rightarrow> Inl e
      | Inr alerts' \<Rightarrow> check_devices_alerts now devices alerts')"

text \<open>The pool check: skipped for the empty list, one alert when no pool is connected.\<close>

definition check_pool_alerts :: "(nat \<Rightarrow> datetime) \<Rightarrow> dict list \<Rightarrow> alert list \<Rightarrow> alert list" where
  "check_pool_alerts now pools alerts =
     (if pools \<noteq> []
      then (let connected_pools = filter (\<lambda>p. dict_get p ''status'' JNull = JStr ''Connected'') pools
            in if connected_pools = []
               then append_alert now ''critical'' No_pools_connected alerts
               else alerts)
      else alerts)"

definition check_alerts :: "(nat \<Rightarrow> datetime) \<Rightarrow> dict option \<Rightarrow> dict list \<Rightarrow> dict list \<Rightarrow> error + alert list" where
  "check_alerts now status devices pools =
     (case (if api_ok status then status else None) of
        None \<Rightarrow> Inr (append_alert now ''critical'' API_not_responding [])
      | Some st \<Rightarrow>
          (case check_data_alerts now (dict_get st ''data'' (JObj [])) [] of
             Inl e \<Rightarrow> Inl e
           | Inr alerts1 \<Rightarrow>
               (case check_devices_alerts now devices alerts1 of
                  Inl e \<Rightarrow> Inl e
                | Inr alerts2 \<Rightarrow> Inr (check_pool_alerts now pools alerts2))))"

subsection \<open>Health check\<close>

record health =
  api_responsive :: bool
  mining_active :: bool
  devices_healthy :: bool
  pools_connected :: bool
  temperature_ok :: bool
  hashrate_ok :: bool

text \<open>
  \<^verbatim>\<open>x or []\<close> for the result of a fetch, which is \<^verbatim>\<open>None\<close> when the request failed;
  \<^verbatim>\<open>if x:\<close> on such a result is \<open>or_empty x \<noteq> []\<close>.
\<close>

definition or_empty :: "'a list option \<Rightarrow> 'a list" where
  "or_empty x = (case x of None \<Rightarrow> [] | Some xs \<Rightarrow> xs)"

text \<open>The status part of \<^verbatim>\<open>check_health\<close>: API, mining state and total hashrate.\<close>

definition check_status_health :: "dict option \<Rightarrow> health \<Rightarrow> error + health" where
  "check_status_health status health0 =
     (case (if api_ok status then status else None) of
        None \<Rightarrow> Inr health0
      | Some st \<Rightarrow>
          (let health1 = health0\<lparr>api_responsive := True\<rparr>
           in case dict_get st ''data'' (JObj []) of
                JObj d \<Rightarrow>
                  (let health2 = (if dict_get d ''mining_state'' JNull = JStr ''Running''
                                  then health1\<lparr>mining_active := True\<rparr>
                                  else health1)
                   in case number (dict_get d ''total_hashrate'' (JNum 0)) of
                        Inl e \<Rightarrow> Inl e
                      | Inr th \<Rightarrow> Inr (if th > 30 then health2\<lparr>hashrate_ok := True\<rparr> else health2))
              | _ \<Rightarrow> Inl AttributeError))"

text \<open>
  The condition of the device loop, with Python's short-circuit \<^verbatim>\<open>and\<close>: a later operand
  is evaluated (and can raise) only when the earlier ones are true.
\<close>

definition device_healthy :: "dict \<Rightarrow> error + bool" where
  "device_healthy device =
     (if dict_get device ''status'' JNull \<noteq> JStr ''Mining'' then Inr False
      else case number (dict_get device ''temperature'' (JNum 0)) of
             Inl e \<Rightarrow> Inl e
           | Inr t \<Rightarrow>
               if \<not> t < 85 then Inr False
               else (case number (dict_get device ''hashrate'' (JNum 0)) of
                       Inl e \<Rightarrow> Inl e
                     | Inr h \<Rightarrow> Inr (h > 15)))"

fun count_healthy :: "dict list \<Rightarrow> nat \<Rightarrow> error + nat" where
  "count_healthy [] healthy_devices = Inr healthy_devices"
| "count_healthy (device # devices) healthy_devices =
     (case device_healthy device of
        Inl e \<Rightarrow> Inl e
      | Inr ok \<Rightarrow> count_healthy devices (if ok then healthy_devices + 1 else healthy_devices))"

text \<open>
  \<^verbatim>\<open>healthy_devices / total_devices >= 0.8\<close> is a comparison of floats in the script. The
  quotient of the two counts is rounded monotonically and \<^verbatim>\<open>0.8\<close> is the rounding of 4/5, so
  the comparison agrees with the exact one for every list shorter than \<open>10^15\<close> devices.
\<close>

definition check_devices_health :: "dict list option \<Rightarrow> health \<Rightarrow> error + health" where
  "check_devices_health devices health0 =
     (if or_empty devices \<noteq> []
      then (case count_healthy (or_empty devices) 0 of
              Inl e \<Rightarrow> Inl e
            | Inr healthy_devices \<Rightarrow>
                (let total_devices = length (or_empty devices)
                 in Inr (if total_devices > 0 \<and> real healthy_devices / real total_devices \<ge> 8 / 10
                         then health0\<lparr>devices_healthy := True, temperature_ok := True\<rparr>
                         else health0)))
      else Inr health0)"

definition check_pools_health :: "dict list option \<Rightarrow> health \<Rightarrow> health" where
  "check_pools_health pools health0 =
     (if or_empty pools \<noteq> []
      then (let connected_pools =
                  length (filter (\<lambda>pool. dict_get pool ''status'' JNull = JStr ''Connected'') (or_empty pools))
            in if connected_pools > 0 then health0\<lparr>pools_connected := True\<rparr> else health0)
      else health0)"

text \<open>
  \<^verbatim>\<open>check_health\<close>, given what \<^verbatim>\<open>get_status\<close>, \<^verbatim>\<open>get_devices\<close> and \<^verbatim>\<open>get_pools\<close> return
  (\<open>None\<close> for a failed request).
\<close>

definition check_health :: "dict option \<Rightarrow> dict list option \<Rightarrow> dict list option \<Rightarrow> error + health" where
  "check_health status devices pools =
     (let health = \<lparr>api_responsive = False, mining_active = False, devices_healthy = False,
                    pools_connected = False, temperature_ok = False, hashrate_ok = False\<rparr>
      in case check_status_health status health of
           Inl e \<Rightarrow> Inl e
         | Inr health1 \<Rightarrow>
             (case check_devices_health devices health1 of
                Inl e \<Rightarrow> Inl e
              | Inr health2 \<Rightarrow> Inr (check_pools_health pools health2)))"

subsection \<open>Performance history\<close>

record metrics =
  timestamp :: datetime
  total_hashrate :: json
  accepted_shares :: json
  rejected_shares :: json
  hardware_errors :: json
  active_devices :: json
  uptime :: json
  device_temperatures :: "json list option"
  device_hashrates :: "json list option"

text \<open>\<^verbatim>\<open>timedelta(hours=h)\<close>, in microseconds.\<close>

definition timedelta_hours :: "int \<Rightarrow> int" where
  "timedelta_hours h = h * 3600 * 1000000"

text \<open>
  The sample \<^verbatim>\<open>metrics\<close> built from \<^verbatim>\<open>data\<close>, the device list and the clock reading
  \<open>now1\<close>; the two per-device arrays are present only when the device list is non-empty.
\<close>

definition build_metrics :: "dict \<Rightarrow> dict list option \<Rightarrow> datetime \<Rightarrow> metrics" where
  "build_metrics d devices now1 =
     \<lparr>timestamp = now1,
      total_hashrate = dict_get d ''total_hashrate'' (JNum 0),
      accepted_shares = dict_get d ''accepted_shares'' (JNum 0),
      rejected_shares = dict_get d ''rejected_shares'' (JNum 0),
      hardware_errors = dict_get d ''hardware_errors'' (JNum 0),
      active_devices = dict_get d ''active_devices'' (JNum 0),
      uptime = dict_get d ''uptime'' (JNum 0),
      device_temperatures =
        (if or_empty devices \<noteq> []
         then Some (map (\<lambda>dev. dict_get dev ''temperature'' (JNum 0))
                     (filter (\<lambda>dev. truthy (dict_get dev ''temperature'' JNull)) (or_empty devices)))
         else None),
      device_hashrates =
        (if or_empty devices \<noteq> []
         then Some (map (\<lambda>dev. dict_get dev ''hashrate'' (JNum 0))
                     (filter (\<lambda>dev. truthy (dict_get dev ''hashrate'' JNull)) (or_empty devices)))
         else None)\<rparr>"

text \<open>
  \<^verbatim>\<open>collect_performance_metrics\<close>, given what its own \<^verbatim>\<open>get_status\<close> and \<^verbatim>\<open>get_devices\<close>
  return and the two readings of \<^verbatim>\<open>datetime.now()\<close> it takes: \<open>now1\<close> for the timestamp of
  the new sample, \<open>now2\<close> after the append for the cutoff. The result is the new value of
  \<^verbatim>\<open>self.performance_history\<close>; an exception is raised before the history is touched.
\<close>

definition collect_performance_metrics ::
    "dict option \<Rightarrow> dict list option \<Rightarrow> datetime \<Rightarrow> datetime \<Rightarrow> metrics list \<Rightarrow> error + metrics list" where
  "collect_performance_metrics status devices now1 now2 performance_history =
     (case (if api_ok status then status else None) of
        None \<Rightarrow> Inr performance_history
      | Some st \<Rightarrow>
          (case dict_get st ''data'' (JObj []) of
             JObj d \<Rightarrow>
               (let cutoff_time = now2 - timedelta_hours 24
                in Inr (filter (\<lambda>m. metrics.timestamp m > cutoff_time)
                          (performance_history @ [build_metrics d devices now1])))
           | _ \<Rightarrow> Inl AttributeError))"

text \<open>
  The append as the specification words it: the new sample is inserted and every sample
  not newer than the new sample's own timestamp minus 24 hours is evicted.
\<close>

definition append_anchored :: "metrics \<Rightarrow> metrics list \<Rightarrow> metrics list" where
  "append_anchored m performance_history =
     filter (\<lambda>s. metrics.timestamp s > metrics.timestamp m - timedelta_hours 24) (performance_history @ [m])"

subsection \<open>The monitoring loop\<close>














section \<open>Properties\<close>

subsection \<open>Alert detection without a usable status\<close>

text \<open>
  Claim C2. When the status is missing or its \<^verbatim>\<open>success\<close> entry is false (or absent),
  \<^verbatim>\<open>check_alerts\<close> returns exactly one alert, critical, "API not responding"; the device
  and pool lists are not looked at, whatever they hold.
\<close>

theorem check_alerts_api_not_responding:
  assumes "case status of None \<Rightarrow> True | Some st \<Rightarrow> \<not> truthy (dict_get st ''success'' JNull)"
  shows "check_alerts now status devices pools =
           Inr [\<lparr>type = ''critical'', message = API_not_responding, timestamp = now 0\<rparr>]"
  using assms by (auto simp: check_alerts_def api_ok_def append_alert_def split: option.splits)

theorem check_alerts_api_not_responding_witness:
  "(case Some [(''success'', JBool False), (''data'', JStr ''x'')] of
      None \<Rightarrow> True
    | Some st \<Rightarrow> \<not> truthy (dict_get st ''success'' JNull))
   \<and> check_alerts (\<lambda>k. 7) (Some [(''success'', JBool False), (''data'', JStr ''x'')])
        [[(''temperature'', JStr ''hot'')]] [[(''status'', JStr ''Disconnected'')]]
      = Inr [\<lparr>type = ''critical'', message = API_not_responding, timestamp = 7\<rparr>]"
  using check_alerts_api_not_responding
    [of "Some [(''success'', JBool False), (''data'', JStr ''x'')]" "\<lambda>k. 7"
        "[[(''temperature'', JStr ''hot'')]]" "[[(''status'', JStr ''Disconnected'')]]"]
  by (simp add: dict_get_def)

subsection \<open>Health check\<close>



lemma check_pools_health_devices:
  "devices_healthy (check_pools_health pools h) = devices_healthy h \<and>
   temperature_ok (check_pools_health pools h) = temperature_ok h \<and>
   hashrate_ok (check_pools_health pools h) = hashrate_ok h"
  by (simp add: check_pools_health_def Let_def)



text \<open>
  Claim C8 says \<open>hashrate_ok\<close> is true for every present status whose total hashrate
  exceeds 30.0. The hashrate is looked at only inside the branch taken when the status
  reports success: a present status with \<^verbatim>\<open>success\<close> false and a total hashrate of 45.0
  leaves \<open>hashrate_ok\<close> false.
\<close>

theorem hashrate_ok_needs_success_counterexample:
  "check_health (Some [(''success'', JBool False), (''data'', JObj [(''total_hashrate'', JNum 45)])]) None None
     = Inr \<lparr>api_responsive = False, mining_active = False, devices_healthy = False,
            pools_connected = False, temperature_ok = False, hashrate_ok = False\<rparr>
   \<and> number (dict_get [(''total_hashrate'', JNum 45)] ''total_hashrate'' (JNum 0)) = Inr 45
   \<and> (45 :: real) > 30"
  by (simp add: check_health_def check_status_health_def api_ok_def check_devices_health_def
          or_empty_def dict_get_def check_pools_health_def)

lemma check_devices_health_hashrate:
  "check_devices_health devices h0 = Inr h1 \<Longrightarrow> hashrate_ok h1 = hashrate_ok h0"
  by (auto simp: check_devices_health_def Let_def split: sum.splits if_splits)

lemma check_status_health_hashrate:
  assumes "check_status_health status h0 = Inr h1" "\<not> hashrate_ok h0"
  shows "hashrate_ok h1 =
          (\<exists>st d x. status = Some st \<and> st \<noteq> [] \<and> truthy (dict_get st ''success'' JNull) \<and>
                     dict_get st ''data'' (JObj []) = JObj d \<and>
                     number (dict_get d ''total_hashrate'' (JNum 0)) = Inr x \<and> x > 30)"
proof (cases "api_ok status")
  case False
  with assms have "h1 = h0" by (simp add: check_status_health_def)
  moreover from False have "\<not> (\<exists>st. status = Some st \<and> st \<noteq> [] \<and> truthy (dict_get st ''success'' JNull))"
    by (auto simp: api_ok_def)
  ultimately show ?thesis using assms(2) by blast
next
  case True
  then obtain st where st: "status = Some st" "st \<noteq> []" "truthy (dict_get st ''success'' JNull)"
    by (auto simp: api_ok_def split: option.splits)
  with assms(1) True obtain d x where d: "dict_get st ''data'' (JObj []) = JObj d"
    and x: "number (dict_get d ''total_hashrate'' (JNum 0)) = Inr x"
    and h1: "hashrate_ok h1 = (x > 30 \<or> hashrate_ok h0)"
    by (auto simp: check_status_health_def Let_def split: json.splits sum.splits if_splits)
  with st assms(2) show ?thesis by auto
qed

text \<open>
  Claim C8, amended. Whenever \<^verbatim>\<open>check_health\<close> returns a report, \<open>hashrate_ok\<close> is true
  exactly when the status is present, its \<^verbatim>\<open>success\<close> entry is true and the total hashrate
  of its data exceeds 30.0.
\<close>

theorem hashrate_ok_iff:
  assumes "check_health status devices pools = Inr h"
  shows "hashrate_ok h =
          (\<exists>st d x. status = Some st \<and> st \<noteq> [] \<and> truthy (dict_get st ''success'' JNull) \<and>
                     dict_get st ''data'' (JObj []) = JObj d \<and>
                     number (dict_get d ''total_hashrate'' (JNum 0)) = Inr x \<and> x > 30)"
proof -
  from assms obtain h1 h2 where
    1: "check_status_health status
          \<lparr>api_responsive = False, mining_active = False, devices_healthy = False,
           pools_connected = False, temperature_ok = False, hashrate_ok = False\<rparr> = Inr h1"
    and 2: "check_devices_health devices h1 = Inr h2"
    and 3: "h = check_pools_health pools h2"
    by (auto simp: check_health_def Let_def split: sum.splits)
  from 3 have "hashrate_ok h = hashrate_ok h2" by (simp add: check_pools_health_devices)
  also from 2 have "\<dots> = hashrate_ok h1" by (rule check_devices_health_hashrate)
  also from 1 have "\<dots> = (\<exists>st d x. status = Some st \<and> st \<noteq> [] \<and> truthy (dict_get st ''success'' JNull) \<and>
                     dict_get st ''data'' (JObj []) = JObj d \<and>
                     number (dict_get d ''total_hashrate'' (JNum 0)) = Inr x \<and> x > 30)"
    by (rule check_status_health_hashrate) simp
  finally show ?thesis .
qed

theorem hashrate_ok_iff_witness:
  "check_health (Some [(''success'', JBool True), (''data'', JObj [(''total_hashrate'', JNum 45)])]) None None
     = Inr \<lparr>api_responsive = True, mining_active = False, devices_healthy = False,
            pools_connected = False, temperature_ok = False, hashrate_ok = True\<rparr>
   \<and> (\<exists>st d x. Some [(''success'', JBool True), (''data'', JObj [(''total_hashrate'', JNum 45)])] = Some st
          \<and> st \<noteq> [] \<and> truthy (dict_get st ''success'' JNull) \<and>
                     dict_get st ''data'' (JObj []) = JObj d \<and>
                     number (dict_get d ''total_hashrate'' (JNum 0)) = Inr x \<and> x > 30)"
proof -
  have h: "check_health (Some [(''success'', JBool True), (''data'', JObj [(''total_hashrate'', JNum 45)])]) None None
     = Inr \<lparr>api_responsive = True, mining_active = False, devices_healthy = False,
            pools_connected = False, temperature_ok = False, hashrate_ok = True\<rparr>"
    by (simp add: check_health_def check_status_health_def api_ok_def check_devices_health_def
          or_empty_def dict_get_def check_pools_health_def)
  from hashrate_ok_iff [OF h] h show ?thesis by simp
qed

subsection \<open>Performance history\<close>

lemma timestamp_build_metrics: "metrics.timestamp (build_metrics d devices now1) = now1"
  by (simp add: build_metrics_def)

lemma collect_performance_metrics_ok:
  assumes "collect_performance_metrics status devices now1 now2 hist = Inr hist'" "api_ok status"
  obtains st d where "status = Some st" "dict_get st ''data'' (JObj []) = JObj d"
    "hist' = filter (\<lambda>m. metrics.timestamp m > now2 - timedelta_hours 24)
               (hist @ [build_metrics d devices now1])"
  using assms
  by (auto simp: collect_performance_metrics_def api_ok_def Let_def split: option.splits json.splits)

text \<open>
  Claim C1 says every retained sample is within 24 hours of the newly appended one. The
  cutoff is taken from a second reading of \<^verbatim>\<open>datetime.now()\<close>, the naive local wall clock,
  which steps back at the end of daylight saving time or when the clock is set: with the
  second reading one hour before the first, a sample 24 h 26 min 40 s older than the new one
  is retained.
\<close>

theorem retention_counterexample:
  "collect_performance_metrics (Some [(''success'', JBool True)]) None 88000000000 84400000000
     [\<lparr>timestamp = 0, total_hashrate = JNum 0, accepted_shares = JNum 0, rejected_shares = JNum 0,
       hardware_errors = JNum 0, active_devices = JNum 0, uptime = JNum 0,
       device_temperatures = None, device_hashrates = None\<rparr>]
   = Inr [\<lparr>timestamp = 0, total_hashrate = JNum 0, accepted_shares = JNum 0, rejected_shares = JNum 0,
           hardware_errors = JNum 0, active_devices = JNum 0, uptime = JNum 0,
           device_temperatures = None, device_hashrates = None\<rparr>,
          \<lparr>timestamp = 88000000000, total_hashrate = JNum 0, accepted_shares = JNum 0, rejected_shares = JNum 0,
           hardware_errors = JNum 0, active_devices = JNum 0, uptime = JNum 0,
           device_temperatures = None, device_hashrates = None\<rparr>]
   \<and> \<not> (88000000000 - 0 \<le> timedelta_hours 24)"
  by (simp add: collect_performance_metrics_def api_ok_def dict_get_def build_metrics_def or_empty_def
        timedelta_hours_def)

text \<open>
  Claim C1, amended. After an append, provided the clock reading taken for the cutoff is not
  earlier than the one stamped on the new sample (\<open>now1 \<le> now2\<close>), every retained sample
  is at most 24 hours older than the new sample.
\<close>

theorem retention_within_24h:
  assumes "collect_performance_metrics status devices now1 now2 hist = Inr hist'"
    and "api_ok status" and "now1 \<le> now2"
  shows "\<forall>s \<in> set hist'. now1 - metrics.timestamp s \<le> timedelta_hours 24"
proof -
  from assms(1,2) obtain st d where
    hist': "hist' = filter (\<lambda>m. metrics.timestamp m > now2 - timedelta_hours 24)
               (hist @ [build_metrics d devices now1])"
    by (rule collect_performance_metrics_ok)
  show ?thesis
  proof
    fix s assume "s \<in> set hist'"
    then have "s \<in> set (filter (\<lambda>m. metrics.timestamp m > now2 - timedelta_hours 24)
               (hist @ [build_metrics d devices now1]))" unfolding hist' .
    then have "metrics.timestamp s > now2 - timedelta_hours 24" unfolding set_filter by blast
    with assms(3) show "now1 - metrics.timestamp s \<le> timedelta_hours 24" by simp
  qed
qed

theorem retention_within_24h_witness:
  "collect_performance_metrics (Some [(''success'', JBool True)]) None 86400000001 86400000001
     [\<lparr>timestamp = 0, total_hashrate = JNum 0, accepted_shares = JNum 0, rejected_shares = JNum 0,
       hardware_errors = JNum 0, active_devices = JNum 0, uptime = JNum 0,
       device_temperatures = None, device_hashrates = None\<rparr>,
      \<lparr>timestamp = 3600000000, total_hashrate = JNum 0, accepted_shares = JNum 0, rejected_shares = JNum 0,
       hardware_errors = JNum 0, active_devices = JNum 0, uptime = JNum 0,
       device_temperatures = None, device_hashrates = None\<rparr>]
   = Inr [\<lparr>timestamp = 3600000000, total_hashrate = JNum 0, accepted_shares = JNum 0, rejected_shares = JNum 0,
           hardware_errors = JNum 0, active_devices = JNum 0, uptime = JNum 0,
           device_temperatures = None, device_hashrates = None\<rparr>,
          \<lparr>timestamp = 86400000001, total_hashrate = JNum 0, accepted_shares = JNum 0, rejected_shares = JNum 0,
           hardware_errors = JNum 0, active_devices = JNum 0, uptime = JNum 0,
           device_temperatures = None, device_hashrates = None\<rparr>]
   \<and> api_ok (Some [(''success'', JBool True)]) \<and> (86400000001 :: int) \<le> 86400000001
   \<and> 86400000001 - 3600000000 \<le> timedelta_hours 24"
proof -
  have c: "collect_performance_metrics (Some [(''success'', JBool True)]) None 86400000001 86400000001
     [\<lparr>timestamp = 0, total_hashrate = JNum 0, accepted_shares = JNum 0, rejected_shares = JNum 0,
       hardware_errors = JNum 0, active_devices = JNum 0, uptime = JNum 0,
       device_temperatures = None, device_hashrates = None\<rparr>,
      \<lparr>timestamp = 3600000000, total_hashrate = JNum 0, accepted_shares = JNum 0, rejected_shares = JNum 0,
       hardware_errors = JNum 0, active_devices = JNum 0, uptime = JNum 0,
       device_temperatures = None, device_hashrates = None\<rparr>]
   = Inr [\<lparr>timestamp = 3600000000, total_hashrate = JNum 0, accepted_shares = JNum 0, rejected_shares = JNum 0,
           hardware_errors = JNum 0, active_devices = JNum 0, uptime = JNum 0,
           device_temperatures = None, device_hashrates = None\<rparr>,
          \<lparr>timestamp = 86400000001, total_hashrate = JNum 0, accepted_shares = JNum 0, rejected_shares = JNum 0,
           hardware_errors = JNum 0, active_devices = JNum 0, uptime = JNum 0,
           device_temperatures = None, device_hashrates = None\<rparr>]"
    by (simp add: collect_performance_metrics_def api_ok_def dict_get_def build_metrics_def or_empty_def
        timedelta_hours_def)
  have a: "api_ok (Some [(''success'', JBool True)])" by (simp add: api_ok_def dict_get_def)
  have t: "(86400000001 :: int) \<le> 86400000001" by simp
  from retention_within_24h [OF c a t] c a show ?thesis by simp
qed

lemma truthy_dict_get_default:
  "truthy (dict_get d k JNull) \<Longrightarrow> dict_get d k dflt = dict_get d k JNull"
  by (auto simp: dict_get_def split: option.splits)

lemma map_filter_truthy:
  "map (\<lambda>dev. dict_get dev k dflt) (filter (\<lambda>dev. truthy (dict_get dev k JNull)) ds)
     = filter truthy (map (\<lambda>dev. dict_get dev k JNull) ds)"
  by (induction ds) (simp_all add: truthy_dict_get_default [of _ _ dflt])

text \<open>
  Claim C9 says no entry is omitted for a device whose value is present. The comprehension
  filters on the truth value of the field, so a hashrate that is present and equal to 0 is
  left out of \<open>device_hashrates\<close>.
\<close>

theorem device_arrays_counterexample:
  "collect_performance_metrics (Some [(''success'', JBool True)])
     (Some [[(''status'', JStr ''Idle''), (''temperature'', JNum 40), (''hashrate'', JNum 0)]]) 0 0 []
   = Inr [\<lparr>timestamp = 0, total_hashrate = JNum 0, accepted_shares = JNum 0, rejected_shares = JNum 0,
           hardware_errors = JNum 0, active_devices = JNum 0, uptime = JNum 0,
           device_temperatures = Some [JNum 40], device_hashrates = Some []\<rparr>]
   \<and> map_of [(''status'', JStr ''Idle''), (''temperature'', JNum 40), (''hashrate'', JNum 0)] ''hashrate''
       = Some (JNum 0)"
  by (simp add: collect_performance_metrics_def api_ok_def dict_get_def build_metrics_def or_empty_def
        timedelta_hours_def)

text \<open>
  Claim C9, amended. When a sample is built from a non-empty device list (and is retained),
  its two arrays hold, in device order, exactly the temperature (hashrate) values that are
  true in Python's sense: present, not null and not zero.
\<close>

theorem device_arrays_truthy:
  assumes "collect_performance_metrics status devices now1 now2 hist = Inr hist'"
    and "api_ok status" and "or_empty devices \<noteq> []" and "now2 - timedelta_hours 24 < now1"
  shows "hist' \<noteq> [] \<and>
         device_temperatures (last hist') =
           Some (filter truthy (map (\<lambda>dev. dict_get dev ''temperature'' JNull) (or_empty devices))) \<and>
         device_hashrates (last hist') =
           Some (filter truthy (map (\<lambda>dev. dict_get dev ''hashrate'' JNull) (or_empty devices)))"
proof -
  from assms(1,2) obtain st d where
    hist': "hist' = filter (\<lambda>m. metrics.timestamp m > now2 - timedelta_hours 24)
               (hist @ [build_metrics d devices now1])"
    by (rule collect_performance_metrics_ok)
  from assms(4) have "hist' = filter (\<lambda>m. metrics.timestamp m > now2 - timedelta_hours 24) hist
                        @ [build_metrics d devices now1]"
    unfolding hist' by (simp add: timestamp_build_metrics)
  then have l: "hist' \<noteq> []" "last hist' = build_metrics d devices now1"
    by simp_all
  have t: "device_temperatures (build_metrics d devices now1) =
          Some (filter truthy (map (\<lambda>dev. dict_get dev ''temperature'' JNull) (or_empty devices)))"
    using assms(3) by (simp add: build_metrics_def map_filter_truthy)
  have h: "device_hashrates (build_metrics d devices now1) =
          Some (filter truthy (map (\<lambda>dev. dict_get dev ''hashrate'' JNull) (or_empty devices)))"
    using assms(3) by (simp add: build_metrics_def map_filter_truthy)
  from l t h show ?thesis by simp
qed

theorem device_arrays_truthy_witness:
  "collect_performance_metrics (Some [(''success'', JBool True)])
     (Some [[(''temperature'', JNum 40), (''hashrate'', JNum 0)], [(''temperature'', JNull), (''hashrate'', JNum 20)]]) 5 6 []
   = Inr [\<lparr>timestamp = 5, total_hashrate = JNum 0, accepted_shares = JNum 0, rejected_shares = JNum 0,
           hardware_errors = JNum 0, active_devices = JNum 0, uptime = JNum 0,
           device_temperatures = Some [JNum 40], device_hashrates = Some [JNum 20]\<rparr>]
   \<and> api_ok (Some [(''success'', JBool True)])
   \<and> or_empty (Some [[(''temperature'', JNum 40), (''hashrate'', JNum 0)], [(''temperature'', JNull), (''hashrate'', JNum 20)]]) \<noteq> []
   \<and> 6 - timedelta_hours 24 < 5
   \<and> filter truthy (map (\<lambda>dev. dict_get dev ''hashrate'' JNull)
        [[(''temperature'', JNum 40), (''hashrate'', JNum 0)], [(''temperature'', JNull), (''hashrate'', JNum 20)]]) = [JNum 20]"
proof -
  have c: "collect_performance_metrics (Some [(''success'', JBool True)])
     (Some [[(''temperature'', JNum 40), (''hashrate'', JNum 0)], [(''temperature'', JNull), (''hashrate'', JNum 20)]]) 5 6 []
   = Inr [\<lparr>timestamp = 5, total_hashrate = JNum 0, accepted_shares = JNum 0, rejected_shares = JNum 0,
           hardware_errors = JNum 0, active_devices = JNum 0, uptime = JNum 0,
           device_temperatures = Some [JNum 40], device_hashrates = Some [JNum 20]\<rparr>]"
    by (simp add: collect_performance_metrics_def api_ok_def dict_get_def build_metrics_def or_empty_def
        timedelta_hours_def)
  have a: "api_ok (Some [(''success'', JBool True)])" by (simp add: api_ok_def dict_get_def)
  have d: "or_empty (Some [[(''temperature'', JNum 40), (''hashrate'', JNum 0)], [(''temperature'', JNull), (''hashrate'', JNum 20)]]) \<noteq> []"
    by (simp add: or_empty_def)
  have t: "6 - timedelta_hours 24 < 5" by (simp add: timedelta_hours_def)
  from device_arrays_truthy [OF c a d t] c a d t show ?thesis
    by (simp add: or_empty_def dict_get_def)
qed

text \<open>
  Claim C3 says the cutoff is the new sample's timestamp minus 24 hours, so that the append
  is a function of the sample and the prior history. The cutoff is a second reading of the
  wall clock minus 24 hours: with that reading one microsecond after the sample's timestamp,
  a sample the anchored append keeps is evicted, and the same sample appended to the same
  history gives two different histories for two different second readings.
\<close>

theorem eviction_anchor_counterexample:
  "collect_performance_metrics (Some [(''success'', JBool True)]) None 86400000000 86400000001
     [\<lparr>timestamp = 1, total_hashrate = JNum 0, accepted_shares = JNum 0, rejected_shares = JNum 0,
       hardware_errors = JNum 0, active_devices = JNum 0, uptime = JNum 0,
       device_temperatures = None, device_hashrates = None\<rparr>]
   = Inr [\<lparr>timestamp = 86400000000, total_hashrate = JNum 0, accepted_shares = JNum 0, rejected_shares = JNum 0,
           hardware_errors = JNum 0, active_devices = JNum 0, uptime = JNum 0,
           device_temperatures = None, device_hashrates = None\<rparr>]
   \<and> append_anchored
         \<lparr>timestamp = 86400000000, total_hashrate = JNum 0, accepted_shares = JNum 0, rejected_shares = JNum 0,
           hardware_errors = JNum 0, active_devices = JNum 0, uptime = JNum 0,
           device_temperatures = None, device_hashrates = None\<rparr>
         [\<lparr>timestamp = 1, total_hashrate = JNum 0, accepted_shares = JNum 0, rejected_shares = JNum 0,
           hardware_errors = JNum 0, active_devices = JNum 0, uptime = JNum 0,
           device_temperatures = None, device_hashrates = None\<rparr>]
     = [\<lparr>timestamp = 1, total_hashrate = JNum 0, accepted_shares = JNum 0, rejected_shares = JNum 0,
           hardware_errors = JNum 0, active_devices = JNum 0, uptime = JNum 0,
           device_temperatures = None, device_hashrates = None\<rparr>,
        \<lparr>timestamp = 86400000000, total_hashrate = JNum 0, accepted_shares = JNum 0, rejected_shares = JNum 0,
           hardware_errors = JNum 0, active_devices = JNum 0, uptime = JNum 0,
           device_temperatures = None, device_hashrates = None\<rparr>]
   \<and> collect_performance_metrics (Some [(''success'', JBool True)]) None 86400000000 86400000000
     [\<lparr>timestamp = 1, total_hashrate = JNum 0, accepted_shares = JNum 0, rejected_shares = JNum 0,
       hardware_errors = JNum 0, active_devices = JNum 0, uptime = JNum 0,
       device_temperatures = None, device_hashrates = None\<rparr>]
     \<noteq> collect_performance_metrics (Some [(''success'', JBool True)]) None 86400000000 86400000001
     [\<lparr>timestamp = 1, total_hashrate = JNum 0, accepted_shares = JNum 0, rejected_shares = JNum 0,
       hardware_errors = JNum 0, active_devices = JNum 0, uptime = JNum 0,
       device_temperatures = None, device_hashrates = None\<rparr>]"
  by (simp add: collect_performance_metrics_def api_ok_def dict_get_def build_metrics_def or_empty_def
        timedelta_hours_def append_anchored_def)

text \<open>
  Claim C3, amended. The cutoff is the second clock reading \<open>now2\<close> minus 24 hours. The
  result is that of the append anchored to the sample when the two readings are equal; when
  the second is later, it is the anchored result with the samples not newer than the
  wall-clock cutoff removed.
\<close>

theorem eviction_cutoff_wall_clock:
  assumes "api_ok (Some st)" and "dict_get st ''data'' (JObj []) = JObj d"
  shows "collect_performance_metrics (Some st) devices now1 now2 hist =
           Inr (filter (\<lambda>s. now2 - timedelta_hours 24 < metrics.timestamp s)
                  (hist @ [build_metrics d devices now1]))
         \<and> (now2 = now1 \<longrightarrow>
              collect_performance_metrics (Some st) devices now1 now2 hist =
                Inr (append_anchored (build_metrics d devices now1) hist))
         \<and> (now1 \<le> now2 \<longrightarrow>
              collect_performance_metrics (Some st) devices now1 now2 hist =
                Inr (filter (\<lambda>s. now2 - timedelta_hours 24 < metrics.timestamp s)
                       (append_anchored (build_metrics d devices now1) hist)))"
proof -
  let ?m = "build_metrics d devices now1"
  have c: "collect_performance_metrics (Some st) devices now1 now2 hist =
           Inr (filter (\<lambda>s. now2 - timedelta_hours 24 < metrics.timestamp s) (hist @ [?m]))"
    using assms by (simp add: collect_performance_metrics_def)
  have e: "now2 = now1 \<Longrightarrow>
      filter (\<lambda>s. now2 - timedelta_hours 24 < metrics.timestamp s) (hist @ [?m]) = append_anchored ?m hist"
    by (simp only: append_anchored_def timestamp_build_metrics)
  have f: "filter (\<lambda>s. now2 - timedelta_hours 24 < metrics.timestamp s) (append_anchored ?m hist)
             = filter (\<lambda>s. now2 - timedelta_hours 24 < metrics.timestamp s) (hist @ [?m])"
    if "now1 \<le> now2"
  proof -
    have "filter (\<lambda>s. now2 - timedelta_hours 24 < metrics.timestamp s) (append_anchored ?m hist)
          = filter (\<lambda>s. now1 - timedelta_hours 24 < metrics.timestamp s \<and>
                         now2 - timedelta_hours 24 < metrics.timestamp s) (hist @ [?m])"
      unfolding append_anchored_def timestamp_build_metrics filter_filter
      by (rule filter_cong) auto
    also have "\<dots> = filter (\<lambda>s. now2 - timedelta_hours 24 < metrics.timestamp s) (hist @ [?m])"
      using that by (intro filter_cong) auto
    finally show ?thesis .
  qed
  show ?thesis
  proof (intro conjI impI)
    show "collect_performance_metrics (Some st) devices now1 now2 hist =
           Inr (filter (\<lambda>s. now2 - timedelta_hours 24 < metrics.timestamp s) (hist @ [?m]))"
      by (rule c)
  next
    assume "now2 = now1"
    from e [OF this] show "collect_performance_metrics (Some st) devices now1 now2 hist =
                Inr (append_anchored ?m hist)"
      by (simp only: c)
  next
    assume "now1 \<le> now2"
    from f [OF this] show "collect_performance_metrics (Some st) devices now1 now2 hist =
                Inr (filter (\<lambda>s. now2 - timedelta_hours 24 < metrics.timestamp s)
                       (append_anchored ?m hist))"
      by (simp only: c)
  qed
qed

theorem eviction_cutoff_wall_clock_witness:
  "api_ok (Some [(''success'', JBool True), (''data'', JObj [(''uptime'', JNum 9)])])
   \<and> dict_get [(''success'', JBool True), (''data'', JObj [(''uptime'', JNum 9)])] ''data'' (JObj [])
       = JObj [(''uptime'', JNum 9)]
   \<and> (5 :: int) \<le> 7
   \<and> collect_performance_metrics (Some [(''success'', JBool True), (''data'', JObj [(''uptime'', JNum 9)])])
        None 5 7 []
      = Inr [\<lparr>timestamp = 5, total_hashrate = JNum 0, accepted_shares = JNum 0, rejected_shares = JNum 0,
           hardware_errors = JNum 0, active_devices = JNum 0, uptime = JNum 9,
           device_temperatures = None, device_hashrates = None\<rparr>]"
proof -
  have a: "api_ok (Some [(''success'', JBool True), (''data'', JObj [(''uptime'', JNum 9)])])"
    by (simp add: api_ok_def dict_get_def)
  have d: "dict_get [(''success'', JBool True), (''data'', JObj [(''uptime'', JNum 9)])] ''data'' (JObj [])
       = JObj [(''uptime'', JNum 9)]"
    by (simp add: dict_get_def)
  from eviction_cutoff_wall_clock [OF a d, of None 5 7 "[]"] a d show ?thesis
    by (simp add: append_anchored_def build_metrics_def dict_get_def or_empty_def timedelta_hours_def)
qed

subsection \<open>Where the alerts of each step come from\<close>

lemma check_data_alerts_new:
  assumes "check_data_alerts now (JObj d) alerts0 = Inr alerts1"
  shows "\<exists>new. alerts1 = alerts0 @ new \<and>
           (\<forall>a \<in> set new.
              message a = Mining_not_active (dict_get d ''mining_state'' JNull) \<or>
              (\<exists>x. message a = Low_total_hashrate x \<and>
                   number (dict_get d ''total_hashrate'' (JNum 0)) = Inr x \<and> x < 30) \<or>
              message a = High_hardware_errors (dict_get d ''hardware_errors'' (JNum 0)))"
proof -
  from assms obtain th he where
    th: "number (dict_get d ''total_hashrate'' (JNum 0)) = Inr th"
    and he: "number (dict_get d ''hardware_errors'' (JNum 0)) = Inr he"
    by (auto simp: check_data_alerts_def Let_def split: sum.splits)
  define n1 where "n1 = (if dict_get d ''mining_state'' JNull \<noteq> JStr ''Running''
      then [\<lparr>type = ''critical'', message = Mining_not_active (dict_get d ''mining_state'' JNull),
             timestamp = now (length alerts0)\<rparr>] else [])"
  define n2 where "n2 = (if th < 30
      then [\<lparr>type = ''warning'', message = Low_total_hashrate th,
             timestamp = now (length (alerts0 @ n1))\<rparr>] else [])"
  define n3 where "n3 = (if he > 10
      then [\<lparr>type = ''warning'', message = High_hardware_errors (dict_get d ''hardware_errors'' (JNum 0)),
             timestamp = now (length (alerts0 @ n1 @ n2))\<rparr>] else [])"
  from assms th he have "alerts1 = alerts0 @ (n1 @ n2 @ n3)"
    by (auto simp: check_data_alerts_def Let_def append_alert_def n1_def n2_def n3_def)
  moreover have "\<forall>a \<in> set (n1 @ n2 @ n3).
              message a = Mining_not_active (dict_get d ''mining_state'' JNull) \<or>
              (\<exists>x. message a = Low_total_hashrate x \<and>
                   number (dict_get d ''total_hashrate'' (JNum 0)) = Inr x \<and> x < 30) \<or>
              message a = High_hardware_errors (dict_get d ''hardware_errors'' (JNum 0))"
    using th by (simp add: n1_def n2_def n3_def)
  ultimately show ?thesis by blast
qed

lemma check_device_alerts_new:
  assumes "check_device_alerts now device alerts0 = Inr alerts1"
  shows "\<exists>new. alerts1 = alerts0 @ new \<and>
           (\<forall>a \<in> set new.
              (\<exists>t. message a = Device_high_temperature (dict_get device ''device_id'' JNull) t \<and>
                   number (dict_get device ''temperature'' JNull) = Inr t \<and> 85 < t) \<or>
              (\<exists>h. message a = Device_low_hashrate (dict_get device ''device_id'' JNull) h \<and>
                   number (dict_get device ''hashrate'' (JNum 0)) = Inr h \<and> h < 15) \<or>
              message a = Device_not_mining (dict_get device ''device_id'' JNull)
                            (dict_get device ''status'' JNull))"
proof -
  define n1 where "n1 = (case number (dict_get device ''temperature'' JNull) of
      Inr t \<Rightarrow> if truthy (dict_get device ''temperature'' JNull) \<and> t > 85
         then [\<lparr>type = ''critical'',
                message = Device_high_temperature (dict_get device ''device_id'' JNull) t,
                timestamp = now (length alerts0)\<rparr>] else []
    | Inl e \<Rightarrow> [])"
  from assms obtain h where h: "number (dict_get device ''hashrate'' (JNum 0)) = Inr h"
    by (auto simp: check_device_alerts_def Let_def split: sum.splits if_splits)
  define n2 where "n2 = (if h < 15
      then [\<lparr>type = ''warning'', message = Device_low_hashrate (dict_get device ''device_id'' JNull) h,
             timestamp = now (length (alerts0 @ n1))\<rparr>] else [])"
  define n3 where "n3 = (if dict_get device ''status'' JNull \<noteq> JStr ''Mining''
      then [\<lparr>type = ''critical'',
             message = Device_not_mining (dict_get device ''device_id'' JNull) (dict_get device ''status'' JNull),
             timestamp = now (length (alerts0 @ n1 @ n2))\<rparr>] else [])"
  from assms h have "alerts1 = alerts0 @ (n1 @ n2 @ n3)"
    by (auto simp: check_device_alerts_def Let_def append_alert_def n1_def n2_def n3_def
          split: sum.splits if_splits)
  moreover have "\<forall>a \<in> set (n1 @ n2 @ n3).
              (\<exists>t. message a = Device_high_temperature (dict_get device ''device_id'' JNull) t \<and>
                   number (dict_get device ''temperature'' JNull) = Inr t \<and> 85 < t) \<or>
              (\<exists>h. message a = Device_low_hashrate (dict_get device ''device_id'' JNull) h \<and>
                   number (dict_get device ''hashrate'' (JNum 0)) = Inr h \<and> h < 15) \<or>
              message a = Device_not_mining (dict_get device ''device_id'' JNull)
                            (dict_get device ''status'' JNull)"
    using h by (auto simp: n1_def n2_def n3_def split: sum.splits)
  ultimately show ?thesis by blast
qed

lemma check_devices_alerts_new:
  assumes "check_devices_alerts now devices alerts0 = Inr alerts1"
  shows "\<exists>new. alerts1 = alerts0 @ new \<and>
           (\<forall>a \<in> set new. \<exists>device \<in> set devices.
              (\<exists>t. message a = Device_high_temperature (dict_get device ''device_id'' JNull) t \<and>
                   number (dict_get device ''temperature'' JNull) = Inr t \<and> 85 < t) \<or>
              (\<exists>h. message a = Device_low_hashrate (dict_get device ''device_id'' JNull) h \<and>
                   number (dict_get device ''hashrate'' (JNum 0)) = Inr h \<and> h < 15) \<or>
              message a = Device_not_mining (dict_get device ''device_id'' JNull)
                            (dict_get device ''status'' JNull))"
  using assms
proof (induction devices arbitrary: alerts0)
  case Nil
  then show ?case by simp
next
  case (Cons device devices)
  from Cons.prems obtain mid where
    1: "check_device_alerts now device alerts0 = Inr mid"
    and 2: "check_devices_alerts now devices mid = Inr alerts1"
    by (auto split: sum.splits)
  from check_device_alerts_new [OF 1] obtain new1 where
    n1: "mid = alerts0 @ new1"
    and p1: "\<forall>a \<in> set new1.
              (\<exists>t. message a = Device_high_temperature (dict_get device ''device_id'' JNull) t \<and>
                   number (dict_get device ''temperature'' JNull) = Inr t \<and> 85 < t) \<or>
              (\<exists>h. message a = Device_low_hashrate (dict_get device ''device_id'' JNull) h \<and>
                   number (dict_get device ''hashrate'' (JNum 0)) = Inr h \<and> h < 15) \<or>
              message a = Device_not_mining (dict_get device ''device_id'' JNull)
                            (dict_get device ''status'' JNull)"
    by blast
  from Cons.IH [OF 2] obtain new2 where
    n2: "alerts1 = mid @ new2"
    and p2: "\<forall>a \<in> set new2. \<exists>device \<in> set devices.
              (\<exists>t. message a = Device_high_temperature (dict_get device ''device_id'' JNull) t \<and>
                   number (dict_get device ''temperature'' JNull) = Inr t \<and> 85 < t) \<or>
              (\<exists>h. message a = Device_low_hashrate (dict_get device ''device_id'' JNull) h \<and>
                   number (dict_get device ''hashrate'' (JNum 0)) = Inr h \<and> h < 15) \<or>
              message a = Device_not_mining (dict_get device ''device_id'' JNull)
                            (dict_get device ''status'' JNull)"
    by blast
  have "alerts1 = alerts0 @ (new1 @ new2)" using n1 n2 by simp
  moreover have "\<forall>a \<in> set (new1 @ new2). \<exists>dev \<in> set (device # devices).
              (\<exists>t. message a = Device_high_temperature (dict_get dev ''device_id'' JNull) t \<and>
                   number (dict_get dev ''temperature'' JNull) = Inr t \<and> 85 < t) \<or>
              (\<exists>h. message a = Device_low_hashrate (dict_get dev ''device_id'' JNull) h \<and>
                   number (dict_get dev ''hashrate'' (JNum 0)) = Inr h \<and> h < 15) \<or>
              message a = Device_not_mining (dict_get dev ''device_id'' JNull)
                            (dict_get dev ''status'' JNull)"
  proof
    fix a assume "a \<in> set (new1 @ new2)"
    then consider "a \<in> set new1" | "a \<in> set new2" by auto
    then show "\<exists>dev \<in> set (device # devices).
              (\<exists>t. message a = Device_high_temperature (dict_get dev ''device_id'' JNull) t \<and>
                   number (dict_get dev ''temperature'' JNull) = Inr t \<and> 85 < t) \<or>
              (\<exists>h. message a = Device_low_hashrate (dict_get dev ''device_id'' JNull) h \<and>
                   number (dict_get dev ''hashrate'' (JNum 0)) = Inr h \<and> h < 15) \<or>
              message a = Device_not_mining (dict_get dev ''device_id'' JNull)
                            (dict_get dev ''status'' JNull)"
    proof cases
      case 1
      with p1 show ?thesis by (intro bexI [of _ device]) simp_all
    next
      case 2
      with p2 obtain dev where "dev \<in> set devices" and
        "(\<exists>t. message a = Device_high_temperature (dict_get dev ''device_id'' JNull) t \<and>
                   number (dict_get dev ''temperature'' JNull) = Inr t \<and> 85 < t) \<or>
              (\<exists>h. message a = Device_low_hashrate (dict_get dev ''device_id'' JNull) h \<and>
                   number (dict_get dev ''hashrate'' (JNum 0)) = Inr h \<and> h < 15) \<or>
              message a = Device_not_mining (dict_get dev ''device_id'' JNull)
                            (dict_get dev ''status'' JNull)"
        by blast
      then show ?thesis by (intro bexI [of _ dev]) simp_all
    qed
  qed
  ultimately show ?case by blast
qed

lemma check_pool_alerts_new:
  "check_pool_alerts now pools alerts0 =
     alerts0 @ (if pools \<noteq> [] \<and> (\<forall>p \<in> set pools. dict_get p ''status'' JNull \<noteq> JStr ''Connected'')
                then [\<lparr>type = ''critical'', message = No_pools_connected,
                       timestamp = now (length alerts0)\<rparr>]
                else [])"
  by (auto simp: check_pool_alerts_def Let_def append_alert_def filter_empty_conv)

lemma check_alerts_steps:
  assumes "api_ok status" and "check_alerts now status devices pools = Inr alerts"
  obtains st d alerts1 alerts2 where
    "status = Some st" "dict_get st ''data'' (JObj []) = JObj d"
    "check_data_alerts now (JObj d) [] = Inr alerts1"
    "check_devices_alerts now devices alerts1 = Inr alerts2"
    "alerts = check_pool_alerts now pools alerts2"
proof -
  from assms(1) obtain st where st: "status = Some st"
    by (auto simp: api_ok_def split: option.splits)
  with assms obtain alerts1 alerts2 where
    1: "check_data_alerts now (dict_get st ''data'' (JObj [])) [] = Inr alerts1"
    and 2: "check_devices_alerts now devices alerts1 = Inr alerts2"
    and 3: "alerts = check_pool_alerts now pools alerts2"
    by (auto simp: check_alerts_def split: sum.splits)
  from 1 obtain d where d: "dict_get st ''data'' (JObj []) = JObj d"
    by (cases "dict_get st ''data'' (JObj [])") (simp_all add: check_data_alerts_def)
  with st 1 2 3 that show ?thesis by simp
qed

subsection \<open>Pool alerts\<close>

text \<open>
  Claim C7. When the status passes the API test (so that the pool check is reached) and
  \<^verbatim>\<open>check_alerts\<close> returns, a non-empty pool list without a connected pool gives exactly one
  "No pools connected" alert, which is critical, and the empty pool list gives none. The
  pool check itself appends that one alert to the alerts found so far in the first case
  and leaves them as they are for the empty list.
\<close>

theorem no_pools_connected_alert:
  assumes "api_ok status" and "check_alerts now status devices pools = Inr alerts"
  shows "(pools \<noteq> [] \<and> (\<forall>p \<in> set pools. dict_get p ''status'' JNull \<noteq> JStr ''Connected'') \<longrightarrow>
            (\<exists>t. filter (\<lambda>a. message a = No_pools_connected) alerts =
                    [\<lparr>type = ''critical'', message = No_pools_connected, timestamp = t\<rparr>]))
         \<and> (pools = [] \<longrightarrow> filter (\<lambda>a. message a = No_pools_connected) alerts = [])
         \<and> (pools \<noteq> [] \<and> (\<forall>p \<in> set pools. dict_get p ''status'' JNull \<noteq> JStr ''Connected'') \<longrightarrow>
            check_pool_alerts now pools alerts0 =
              alerts0 @ [\<lparr>type = ''critical'', message = No_pools_connected,
                          timestamp = now (length alerts0)\<rparr>])
         \<and> check_pool_alerts now [] alerts0 = alerts0"
proof -
  from assms obtain st d alerts1 alerts2 where
    1: "check_data_alerts now (JObj d) [] = Inr alerts1"
    and 2: "check_devices_alerts now devices alerts1 = Inr alerts2"
    and 3: "alerts = check_pool_alerts now pools alerts2"
    by (rule check_alerts_steps)
  from check_data_alerts_new [OF 1]
  have "\<forall>a \<in> set alerts1. message a \<noteq> No_pools_connected" by auto
  moreover from check_devices_alerts_new [OF 2] obtain new where
    "alerts2 = alerts1 @ new" "\<forall>a \<in> set new. message a \<noteq> No_pools_connected"
    by fastforce
  ultimately have "\<forall>a \<in> set alerts2. message a \<noteq> No_pools_connected" by auto
  then have none: "filter (\<lambda>a. message a = No_pools_connected) alerts2 = []"
    by (simp add: filter_empty_conv)
  have whole: "(pools \<noteq> [] \<and> (\<forall>p \<in> set pools. dict_get p ''status'' JNull \<noteq> JStr ''Connected'') \<longrightarrow>
            (\<exists>t. filter (\<lambda>a. message a = No_pools_connected) alerts =
                    [\<lparr>type = ''critical'', message = No_pools_connected, timestamp = t\<rparr>]))
         \<and> (pools = [] \<longrightarrow> filter (\<lambda>a. message a = No_pools_connected) alerts = [])"
    unfolding 3 check_pool_alerts_new using none by auto
  have step: "(pools \<noteq> [] \<and> (\<forall>p \<in> set pools. dict_get p ''status'' JNull \<noteq> JStr ''Connected'') \<longrightarrow>
            check_pool_alerts now pools alerts0 =
              alerts0 @ [\<lparr>type = ''critical'', message = No_pools_connected,
                          timestamp = now (length alerts0)\<rparr>])
         \<and> check_pool_alerts now [] alerts0 = alerts0"
    by (simp add: check_pool_alerts_new)
  from whole step show ?thesis by blast
qed

theorem no_pools_connected_alert_witness:
  "api_ok (Some [(''success'', JBool True), (''data'', JObj [(''mining_state'', JStr ''Running''), (''total_hashrate'', JNum 45)])])
   \<and> check_alerts (\<lambda>k. 3) (Some [(''success'', JBool True), (''data'', JObj [(''mining_state'', JStr ''Running''), (''total_hashrate'', JNum 45)])])
        [] [[(''status'', JStr ''Disconnected'')]]
      = Inr [\<lparr>type = ''critical'', message = No_pools_connected, timestamp = 3\<rparr>]
   \<and> [[(''status'', JStr ''Disconnected'')]] \<noteq> []
   \<and> dict_get [(''status'', JStr ''Disconnected'')] ''status'' JNull \<noteq> JStr ''Connected''
   \<and> check_alerts (\<lambda>k. 3) (Some [(''success'', JBool True), (''data'', JObj [(''mining_state'', JStr ''Running''), (''total_hashrate'', JNum 45)])])
        [] [] = Inr []"
proof -
  have a: "api_ok (Some [(''success'', JBool True), (''data'', JObj [(''mining_state'', JStr ''Running''), (''total_hashrate'', JNum 45)])])"
    by (simp add: api_ok_def dict_get_def)
  have c: "check_alerts (\<lambda>k. 3) (Some [(''success'', JBool True), (''data'', JObj [(''mining_state'', JStr ''Running''), (''total_hashrate'', JNum 45)])])
        [] [[(''status'', JStr ''Disconnected'')]]
      = Inr [\<lparr>type = ''critical'', message = No_pools_connected, timestamp = 3\<rparr>]"
    by (simp add: check_alerts_def api_ok_def dict_get_def check_data_alerts_def check_pool_alerts_def
          append_alert_def)
  have e: "check_alerts (\<lambda>k. 3) (Some [(''success'', JBool True), (''data'', JObj [(''mining_state'', JStr ''Running''), (''total_hashrate'', JNum 45)])])
        [] [] = Inr []"
    by (simp add: check_alerts_def api_ok_def dict_get_def check_data_alerts_def check_pool_alerts_def
          append_alert_def)
  from no_pools_connected_alert [OF a c] no_pools_connected_alert [OF a e] a c e show ?thesis
    by (simp add: dict_get_def)
qed

subsection \<open>Dependence on the clock\<close>

text \<open>
  Claim C6 says two evaluations of \<^verbatim>\<open>check_alerts\<close> on the same status, devices and pools
  give identical outputs. Every alert carries \<^verbatim>\<open>datetime.now()\<close>: the same inputs evaluated
  under two clock readings give two different alert lists.
\<close>

theorem check_alerts_clock_counterexample:
  "check_alerts (\<lambda>k. 0) None [] [] \<noteq> check_alerts (\<lambda>k. 1) None [] []"
  by (simp add: check_alerts_def api_ok_def append_alert_def)

lemma check_data_alerts_content:
  assumes "map (\<lambda>a. (type a, message a)) as = map (\<lambda>a. (type a, message a)) as'"
  shows "map_sum id (map (\<lambda>a. (type a, message a))) (check_data_alerts now data as)
       = map_sum id (map (\<lambda>a. (type a, message a))) (check_data_alerts now' data as')"
  using assms
  by (auto simp: check_data_alerts_def Let_def append_alert_def split: json.splits sum.splits)

lemma check_device_alerts_content:
  assumes "map (\<lambda>a. (type a, message a)) as = map (\<lambda>a. (type a, message a)) as'"
  shows "map_sum id (map (\<lambda>a. (type a, message a))) (check_device_alerts now device as)
       = map_sum id (map (\<lambda>a. (type a, message a))) (check_device_alerts now' device as')"
  using assms
  by (auto simp: check_device_alerts_def Let_def append_alert_def split: sum.splits)

lemma check_devices_alerts_content:
  assumes "map (\<lambda>a. (type a, message a)) as = map (\<lambda>a. (type a, message a)) as'"
  shows "map_sum id (map (\<lambda>a. (type a, message a))) (check_devices_alerts now devices as)
       = map_sum id (map (\<lambda>a. (type a, message a))) (check_devices_alerts now' devices as')"
  using assms
proof (induction devices arbitrary: as as')
  case Nil
  then show ?case by simp
next
  case (Cons device devices)
  from check_device_alerts_content [OF Cons.prems, of now device now']
  consider e where "check_device_alerts now device as = Inl e" "check_device_alerts now' device as' = Inl e"
    | bs bs' where "check_device_alerts now device as = Inr bs" "check_device_alerts now' device as' = Inr bs'"
       "map (\<lambda>a. (type a, message a)) bs = map (\<lambda>a. (type a, message a)) bs'"
    by (cases "check_device_alerts now device as"; cases "check_device_alerts now' device as'") auto
  then show ?case
  proof cases
    case 1
    then show ?thesis by simp
  next
    case 2
    with Cons.IH [OF 2(3)] show ?thesis by simp
  qed
qed

lemma check_pool_alerts_content:
  assumes "map (\<lambda>a. (type a, message a)) as = map (\<lambda>a. (type a, message a)) as'"
  shows "map (\<lambda>a. (type a, message a)) (check_pool_alerts now pools as)
       = map (\<lambda>a. (type a, message a)) (check_pool_alerts now' pools as')"
  using assms by (simp add: check_pool_alerts_new)

text \<open>
  Claim C6, amended. The outcome of \<^verbatim>\<open>check_alerts\<close> apart from the timestamps (whether it
  raises, which exception, and the severities and messages of the alerts, in order) is the
  same for every clock: it depends on the status, devices and pools alone.
\<close>

theorem check_alerts_content_deterministic:
  "map_sum id (map (\<lambda>a. (type a, message a))) (check_alerts now status devices pools)
     = map_sum id (map (\<lambda>a. (type a, message a))) (check_alerts now' status devices pools)"
proof (cases "api_ok status")
  case False
  then show ?thesis by (simp add: check_alerts_def append_alert_def)
next
  case True
  then obtain st where st: "status = Some st" by (auto simp: api_ok_def split: option.splits)
  let ?data = "dict_get st ''data'' (JObj [])"
  from check_data_alerts_content [of "[]" "[]" now ?data now']
  consider e where "check_data_alerts now ?data [] = Inl e" "check_data_alerts now' ?data [] = Inl e"
    | bs bs' where "check_data_alerts now ?data [] = Inr bs" "check_data_alerts now' ?data [] = Inr bs'"
       "map (\<lambda>a. (type a, message a)) bs = map (\<lambda>a. (type a, message a)) bs'"
    by (cases "check_data_alerts now ?data []"; cases "check_data_alerts now' ?data []") auto
  then show ?thesis
  proof cases
    case 1
    with True st show ?thesis by (simp add: check_alerts_def)
  next
    case 2
    from check_devices_alerts_content [OF 2(3), of now devices now']
    consider e where "check_devices_alerts now devices bs = Inl e" "check_devices_alerts now' devices bs' = Inl e"
      | cs cs' where "check_devices_alerts now devices bs = Inr cs" "check_devices_alerts now' devices bs' = Inr cs'"
         "map (\<lambda>a. (type a, message a)) cs = map (\<lambda>a. (type a, message a)) cs'"
      by (cases "check_devices_alerts now devices bs"; cases "check_devices_alerts now' devices bs'") auto
    then show ?thesis
    proof cases
      case 1
      with 2 True st show ?thesis by (simp add: check_alerts_def)
    next
      case c: 2
      from check_pool_alerts_content [OF c(3), of now pools now'] 2 c True st
      show ?thesis by (simp add: check_alerts_def)
    qed
  qed
qed

subsection \<open>Values exactly at a threshold\<close>

lemma dict_get_present:
  "dict_get d k JNull = JNum x \<Longrightarrow> dict_get d k dflt = JNum x"
  by (auto simp: dict_get_def split: option.splits)

lemma alerts_strictly_past_threshold:
  assumes "check_alerts now status devices pools = Inr alerts"
  shows "\<forall>a \<in> set alerts.
           (\<forall>i t. message a = Device_high_temperature i t \<longrightarrow> 85 < t) \<and>
           (\<forall>i h. message a = Device_low_hashrate i h \<longrightarrow> h < 15) \<and>
           (\<forall>x. message a = Low_total_hashrate x \<longrightarrow> x < 30)"
proof (cases "api_ok status")
  case False
  with assms have "alerts = [\<lparr>type = ''critical'', message = API_not_responding, timestamp = now 0\<rparr>]"
    by (simp add: check_alerts_def append_alert_def)
  then show ?thesis by simp
next
  case True
  from True assms obtain st d alerts1 alerts2 where
    1: "check_data_alerts now (JObj d) [] = Inr alerts1"
    and 2: "check_devices_alerts now devices alerts1 = Inr alerts2"
    and 3: "alerts = check_pool_alerts now pools alerts2"
    by (rule check_alerts_steps)
  from check_data_alerts_new [OF 1]
  have a1: "\<forall>a \<in> set alerts1.
           (\<forall>i t. message a = Device_high_temperature i t \<longrightarrow> 85 < t) \<and>
           (\<forall>i h. message a = Device_low_hashrate i h \<longrightarrow> h < 15) \<and>
           (\<forall>x. message a = Low_total_hashrate x \<longrightarrow> x < 30)"
    by auto
  from check_devices_alerts_new [OF 2] obtain new where
    new: "alerts2 = alerts1 @ new"
    and "\<forall>a \<in> set new. \<exists>device \<in> set devices.
              (\<exists>t. message a = Device_high_temperature (dict_get device ''device_id'' JNull) t \<and>
                   number (dict_get device ''temperature'' JNull) = Inr t \<and> 85 < t) \<or>
              (\<exists>h. message a = Device_low_hashrate (dict_get device ''device_id'' JNull) h \<and>
                   number (dict_get device ''hashrate'' (JNum 0)) = Inr h \<and> h < 15) \<or>
              message a = Device_not_mining (dict_get device ''device_id'' JNull)
                            (dict_get device ''status'' JNull)"
    by blast
  then have a2: "\<forall>a \<in> set new.
           (\<forall>i t. message a = Device_high_temperature i t \<longrightarrow> 85 < t) \<and>
           (\<forall>i h. message a = Device_low_hashrate i h \<longrightarrow> h < 15) \<and>
           (\<forall>x. message a = Low_total_hashrate x \<longrightarrow> x < 30)"
    by fastforce
  from a1 a2 new show ?thesis
    unfolding 3 check_pool_alerts_new by auto
qed

lemma temperature_at_threshold:
  assumes "dict_get device ''temperature'' JNull = JNum 85"
  shows "device_healthy device \<noteq> Inr True"
    and "check_device_alerts now device alerts0 = Inr alerts1 \<Longrightarrow>
           \<exists>new. alerts1 = alerts0 @ new \<and> (\<forall>a \<in> set new. \<forall>i t. message a \<noteq> Device_high_temperature i t)"
proof -
  from assms have "dict_get device ''temperature'' (JNum 0) = JNum 85" by (rule dict_get_present)
  then show "device_healthy device \<noteq> Inr True"
    by (simp add: device_healthy_def split: sum.splits)
next
  assume "check_device_alerts now device alerts0 = Inr alerts1"
  from check_device_alerts_new [OF this] assms
  show "\<exists>new. alerts1 = alerts0 @ new \<and> (\<forall>a \<in> set new. \<forall>i t. message a \<noteq> Device_high_temperature i t)"
    by fastforce
qed

lemma hashrate_at_threshold:
  assumes "dict_get device ''hashrate'' (JNum 0) = JNum 15"
  shows "device_healthy device \<noteq> Inr True"
    and "check_device_alerts now device alerts0 = Inr alerts1 \<Longrightarrow>
           \<exists>new. alerts1 = alerts0 @ new \<and> (\<forall>a \<in> set new. \<forall>i h. message a \<noteq> Device_low_hashrate i h)"
proof -
  from assms show "device_healthy device \<noteq> Inr True"
    by (simp add: device_healthy_def split: sum.splits)
next
  assume "check_device_alerts now device alerts0 = Inr alerts1"
  from check_device_alerts_new [OF this] assms
  show "\<exists>new. alerts1 = alerts0 @ new \<and> (\<forall>a \<in> set new. \<forall>i h. message a \<noteq> Device_low_hashrate i h)"
    by fastforce
qed

lemma total_hashrate_at_threshold:
  assumes "api_ok (Some st)" and "dict_get st ''data'' (JObj []) = JObj d"
    and "dict_get d ''total_hashrate'' (JNum 0) = JNum 30"
  shows "check_alerts now (Some st) devices pools = Inr alerts \<Longrightarrow>
           \<forall>a \<in> set alerts. \<forall>x. message a \<noteq> Low_total_hashrate x"
    and "check_health (Some st) devs pls = Inr h \<Longrightarrow> \<not> hashrate_ok h"
proof -
  assume c: "check_alerts now (Some st) devices pools = Inr alerts"
  from assms(1) c obtain st' d' alerts1 alerts2 where
    s: "Some st = Some st'" "dict_get st' ''data'' (JObj []) = JObj d'"
    and 1: "check_data_alerts now (JObj d') [] = Inr alerts1"
    and 2: "check_devices_alerts now devices alerts1 = Inr alerts2"
    and 3: "alerts = check_pool_alerts now pools alerts2"
    by (rule check_alerts_steps)
  from s assms(2) have d': "d' = d" by simp
  from check_data_alerts_new [OF 1] assms(3) d'
  have a1: "\<forall>a \<in> set alerts1. \<forall>x. message a \<noteq> Low_total_hashrate x" by fastforce
  from check_devices_alerts_new [OF 2] obtain new where
    new: "alerts2 = alerts1 @ new"
    and a2: "\<forall>a \<in> set new. \<forall>x. message a \<noteq> Low_total_hashrate x"
    by fastforce
  from a1 a2 new show "\<forall>a \<in> set alerts. \<forall>x. message a \<noteq> Low_total_hashrate x"
    unfolding 3 check_pool_alerts_new by auto
next
  assume "check_health (Some st) devs pls = Inr h"
  then obtain h1 h2 where
    1: "check_status_health (Some st)
          \<lparr>api_responsive = False, mining_active = False, devices_healthy = False,
           pools_connected = False, temperature_ok = False, hashrate_ok = False\<rparr> = Inr h1"
    and 2: "check_devices_health devs h1 = Inr h2"
    and 3: "h = check_pools_health pls h2"
    by (auto simp: check_health_def Let_def split: sum.splits)
  from 1 assms have "\<not> hashrate_ok h1"
    by (auto simp: check_status_health_def Let_def split: if_splits)
  with 2 have "\<not> hashrate_ok h2" by (simp add: check_devices_health_hashrate)
  with 3 show "\<not> hashrate_ok h" by (simp add: check_pools_health_devices)
qed

lemma boundary_scenario:
  "check_alerts now
     (Some [(''success'', JBool True),
            (''data'', JObj [(''mining_state'', JStr ''Running''), (''total_hashrate'', JNum 30),
                             (''hardware_errors'', JNum 2)])])
     [[(''device_id'', JNum 0), (''status'', JStr ''Mining''), (''temperature'', JNum 85),
       (''hashrate'', JNum 15)]]
     [[(''status'', JStr ''Connected'')]]
   = Inr []
   \<and> check_health
     (Some [(''success'', JBool True),
            (''data'', JObj [(''mining_state'', JStr ''Running''), (''total_hashrate'', JNum 30),
                             (''hardware_errors'', JNum 2)])])
     (Some [[(''device_id'', JNum 0), (''status'', JStr ''Mining''), (''temperature'', JNum 85),
             (''hashrate'', JNum 15)]])
     (Some [[(''status'', JStr ''Connected'')]])
   = Inr \<lparr>api_responsive = True, mining_active = True, devices_healthy = False,
          pools_connected = True, temperature_ok = False, hashrate_ok = False\<rparr>"
  by (simp add: check_alerts_def api_ok_def dict_get_def check_data_alerts_def check_device_alerts_def
        check_pool_alerts_def check_health_def check_status_health_def check_devices_health_def
        check_pools_health_def device_healthy_def or_empty_def)

text \<open>
  Claim C10. Alerts are raised only strictly past a threshold, and the health conditions
  hold only strictly on the other side. A device at exactly 85.0 degrees, or at exactly
  15.0 GH/s, adds no temperature (hashrate) alert and is not counted healthy; a total
  hashrate of exactly 30.0 adds no low-hashrate alert and leaves \<open>hashrate_ok\<close> false. With
  all three at their thresholds \<^verbatim>\<open>check_alerts\<close> returns no alert while \<^verbatim>\<open>check_health\<close>
  reports three failed checks.
\<close>

theorem threshold_boundary_gap:
  "(check_alerts now status devices pools = Inr alerts \<longrightarrow>
      (\<forall>a \<in> set alerts.
         (\<forall>i t. message a = Device_high_temperature i t \<longrightarrow> 85 < t) \<and>
         (\<forall>i h. message a = Device_low_hashrate i h \<longrightarrow> h < 15) \<and>
         (\<forall>x. message a = Low_total_hashrate x \<longrightarrow> x < 30)))
   \<and> (dict_get device ''temperature'' JNull = JNum 85 \<longrightarrow>
        device_healthy device \<noteq> Inr True \<and>
        (\<forall>alerts0 alerts1. check_device_alerts now device alerts0 = Inr alerts1 \<longrightarrow>
           (\<exists>new. alerts1 = alerts0 @ new \<and>
                  (\<forall>a \<in> set new. \<forall>i t. message a \<noteq> Device_high_temperature i t))))
   \<and> (dict_get device ''hashrate'' (JNum 0) = JNum 15 \<longrightarrow>
        device_healthy device \<noteq> Inr True \<and>
        (\<forall>alerts0 alerts1. check_device_alerts now device alerts0 = Inr alerts1 \<longrightarrow>
           (\<exists>new. alerts1 = alerts0 @ new \<and>
                  (\<forall>a \<in> set new. \<forall>i h. message a \<noteq> Device_low_hashrate i h))))
   \<and> (api_ok (Some st) \<and> dict_get st ''data'' (JObj []) = JObj d \<and>
       dict_get d ''total_hashrate'' (JNum 0) = JNum 30 \<longrightarrow>
        (\<forall>alerts'. check_alerts now (Some st) devices pools = Inr alerts' \<longrightarrow>
           (\<forall>a \<in> set alerts'. \<forall>x. message a \<noteq> Low_total_hashrate x)) \<and>
        (\<forall>devs pls h. check_health (Some st) devs pls = Inr h \<longrightarrow> \<not> hashrate_ok h))
   \<and> check_alerts now
        (Some [(''success'', JBool True),
               (''data'', JObj [(''mining_state'', JStr ''Running''), (''total_hashrate'', JNum 30),
                                (''hardware_errors'', JNum 2)])])
        [[(''device_id'', JNum 0), (''status'', JStr ''Mining''), (''temperature'', JNum 85),
          (''hashrate'', JNum 15)]]
        [[(''status'', JStr ''Connected'')]]
      = Inr []
   \<and> check_health
        (Some [(''success'', JBool True),
               (''data'', JObj [(''mining_state'', JStr ''Running''), (''total_hashrate'', JNum 30),
                                (''hardware_errors'', JNum 2)])])
        (Some [[(''device_id'', JNum 0), (''status'', JStr ''Mining''), (''temperature'', JNum 85),
                (''hashrate'', JNum 15)]])
        (Some [[(''status'', JStr ''Connected'')]])
      = Inr \<lparr>api_responsive = True, mining_active = True, devices_healthy = False,
             pools_connected = True, temperature_ok = False, hashrate_ok = False\<rparr>"
proof (intro conjI impI allI)
  assume "check_alerts now status devices pools = Inr alerts"
  then show "\<forall>a \<in> set alerts.
         (\<forall>i t. message a = Device_high_temperature i t \<longrightarrow> 85 < t) \<and>
         (\<forall>i h. message a = Device_low_hashrate i h \<longrightarrow> h < 15) \<and>
         (\<forall>x. message a = Low_total_hashrate x \<longrightarrow> x < 30)"
    by (rule alerts_strictly_past_threshold)
next
  assume "dict_get device ''temperature'' JNull = JNum 85"
  then show "device_healthy device \<noteq> Inr True" by (rule temperature_at_threshold(1))
next
  fix alerts0 alerts1
  assume "dict_get device ''temperature'' JNull = JNum 85"
    and "check_device_alerts now device alerts0 = Inr alerts1"
  then show "\<exists>new. alerts1 = alerts0 @ new \<and>
                  (\<forall>a \<in> set new. \<forall>i t. message a \<noteq> Device_high_temperature i t)"
    by (rule temperature_at_threshold(2))
next
  assume "dict_get device ''hashrate'' (JNum 0) = JNum 15"
  then show "device_healthy device \<noteq> Inr True" by (rule hashrate_at_threshold(1))
next
  fix alerts0 alerts1
  assume "dict_get device ''hashrate'' (JNum 0) = JNum 15"
    and "check_device_alerts now device alerts0 = Inr alerts1"
  then show "\<exists>new. alerts1 = alerts0 @ new \<and>
                  (\<forall>a \<in> set new. \<forall>i h. message a \<noteq> Device_low_hashrate i h)"
    by (rule hashrate_at_threshold(2))
next
  fix alerts'
  assume "api_ok (Some st) \<and> dict_get st ''data'' (JObj []) = JObj d \<and>
       dict_get d ''total_hashrate'' (JNum 0) = JNum 30"
    and "check_alerts now (Some st) devices pools = Inr alerts'"
  then show "\<forall>a \<in> set alerts'. \<forall>x. message a \<noteq> Low_total_hashrate x"
    using total_hashrate_at_threshold(1) by blast
next
  fix devs pls h
  assume "api_ok (Some st) \<and> dict_get st ''data'' (JObj []) = JObj d \<and>
       dict_get d ''total_hashrate'' (JNum 0) = JNum 30"
    and "check_health (Some st) devs pls = Inr h"
  then show "\<not> hashrate_ok h"
    using total_hashrate_at_threshold(2) by blast
next
  show "check_alerts now
        (Some [(''success'', JBool True),
               (''data'', JObj [(''mining_state'', JStr ''Running''), (''total_hashrate'', JNum 30),
                                (''hardware_errors'', JNum 2)])])
        [[(''device_id'', JNum 0), (''status'', JStr ''Mining''), (''temperature'', JNum 85),
          (''hashrate'', JNum 15)]]
        [[(''status'', JStr ''Connected'')]]
      = Inr []"
    using boundary_scenario by (rule conjunct1)
next
  show "check_health
        (Some [(''success'', JBool True),
               (''data'', JObj [(''mining_state'', JStr ''Running''), (''total_hashrate'', JNum 30),
                                (''hardware_errors'', JNum 2)])])
        (Some [[(''device_id'', JNum 0), (''status'', JStr ''Mining''), (''temperature'', JNum 85),
                (''hashrate'', JNum 15)]])
        (Some [[(''status'', JStr ''Connected'')]])
      = Inr \<lparr>api_responsive = True, mining_active = True, devices_healthy = False,
             pools_connected = True, temperature_ok = False, hashrate_ok = False\<rparr>"
    using boundary_scenario by (rule conjunct2)
qed

theorem threshold_boundary_gap_witness:
  "check_alerts (\<lambda>k. 0)
     (Some [(''success'', JBool True), (''data'', JObj [(''total_hashrate'', JNum 30)])])
     [[(''temperature'', JNum 85), (''hashrate'', JNum 15)]] []
   = Inr [\<lparr>type = ''critical'', message = Mining_not_active JNull, timestamp = 0\<rparr>,
          \<lparr>type = ''critical'', message = Device_not_mining JNull JNull, timestamp = 0\<rparr>]
   \<and> dict_get [(''temperature'', JNum 85), (''hashrate'', JNum 15)] ''temperature'' JNull = JNum 85
   \<and> dict_get [(''temperature'', JNum 85), (''hashrate'', JNum 15)] ''hashrate'' (JNum 0) = JNum 15
   \<and> api_ok (Some [(''success'', JBool True), (''data'', JObj [(''total_hashrate'', JNum 30)])])
   \<and> dict_get [(''success'', JBool True), (''data'', JObj [(''total_hashrate'', JNum 30)])] ''data'' (JObj [])
        = JObj [(''total_hashrate'', JNum 30)]
   \<and> dict_get [(''total_hashrate'', JNum 30)] ''total_hashrate'' (JNum 0) = JNum 30
   \<and> device_healthy [(''temperature'', JNum 85), (''hashrate'', JNum 15)] \<noteq> Inr True"
proof -
  have c: "check_alerts (\<lambda>k. 0)
     (Some [(''success'', JBool True), (''data'', JObj [(''total_hashrate'', JNum 30)])])
     [[(''temperature'', JNum 85), (''hashrate'', JNum 15)]] []
   = Inr [\<lparr>type = ''critical'', message = Mining_not_active JNull, timestamp = 0\<rparr>,
          \<lparr>type = ''critical'', message = Device_not_mining JNull JNull, timestamp = 0\<rparr>]"
    by (simp add: check_alerts_def api_ok_def dict_get_def check_data_alerts_def check_device_alerts_def
        check_pool_alerts_def append_alert_def)
  have t: "dict_get [(''temperature'', JNum 85), (''hashrate'', JNum 15)] ''temperature'' JNull = JNum 85"
    and h: "dict_get [(''temperature'', JNum 85), (''hashrate'', JNum 15)] ''hashrate'' (JNum 0) = JNum 15"
    and a: "api_ok (Some [(''success'', JBool True), (''data'', JObj [(''total_hashrate'', JNum 30)])])"
    and d: "dict_get [(''success'', JBool True), (''data'', JObj [(''total_hashrate'', JNum 30)])] ''data'' (JObj [])
        = JObj [(''total_hashrate'', JNum 30)]"
    and th: "dict_get [(''total_hashrate'', JNum 30)] ''total_hashrate'' (JNum 0) = JNum 30"
    by (simp_all add: dict_get_def api_ok_def)
  from threshold_boundary_gap
    [of "\<lambda>k. 0" "Some [(''success'', JBool True), (''data'', JObj [(''total_hashrate'', JNum 30)])]"
        "[[(''temperature'', JNum 85), (''hashrate'', JNum 15)]]" "[]"
        "[\<lparr>type = ''critical'', message = Mining_not_active JNull, timestamp = 0\<rparr>,
          \<lparr>type = ''critical'', message = Device_not_mining JNull JNull, timestamp = 0\<rparr>]"
        "[(''temperature'', JNum 85), (''hashrate'', JNum 15)]"
        "[(''success'', JBool True), (''data'', JObj [(''total_hashrate'', JNum 30)])]"
        "[(''total_hashrate'', JNum 30)]"]
    t
  have "device_healthy [(''temperature'', JNum 85), (''hashrate'', JNum 15)] \<noteq> Inr True"
    by blast
  with c t h a d th show ?thesis by simp
qed

subsection \<open>The monitoring loop\<close>












end
